theory Spec2Isabelle
  imports Main
begin

section \<open>Request outcomes\<close>

text \<open>
  An endpoint of \<^verbatim>\<open>backend/main.py\<close> returns a JSON body, raises
  \<^verbatim>\<open>HTTPException(status_code, detail)\<close>, or lets another exception escape: the hasher
  refusing a password, SQLite refusing a parameter. No handler catches the last kind, and
  the framework answers it with status 500. A raise is the left injection of a sum.
\<close>

datatype exn = OverflowError | IntegrityError | PasswordValueError | UnknownHashError

datatype failure = HTTPException nat string | Unhandled exn


section \<open>The users table (database.py)\<close>

text \<open>
  One row of \<^verbatim>\<open>users(id, username, password, email UNIQUE, age, location, phone, language)\<close>.
  The profile attributes are nullable (\<open>None\<close> is SQL NULL). The columns \<open>password\<close> and
  \<open>email\<close> are only ever written from \<^verbatim>\<open>str\<close> values (\<^verbatim>\<open>RegisterUser.email\<close>, the
  output of \<^verbatim>\<open>get_password_hash\<close>), so they are plain strings. The table is the list of
  its rows in rowid order, which is the order in which \<^verbatim>\<open>fetchone()\<close> meets them.
\<close>

record user_row =
  user_id :: nat
  username :: "string option"
  password :: string
  email :: string
  age :: "int option"
  location :: "string option"
  phone :: "string option"
  language :: "string option"

type_synonym users = "user_row list"

definition get_user_by_email_or_username :: "string \<Rightarrow> users \<Rightarrow> user_row option" where
  \<comment> \<open>\<^verbatim>\<open>SELECT * FROM users WHERE email = ? OR username = ?\<close>, then \<^verbatim>\<open>fetchone()\<close>\<close>
  "get_user_by_email_or_username identifier rows =
     find (\<lambda>r. email r = identifier \<or> username r = Some identifier) rows"

definition select_by_email :: "string \<Rightarrow> users \<Rightarrow> user_row option" where
  \<comment> \<open>\<^verbatim>\<open>SELECT * FROM users WHERE email = ?\<close>, then \<^verbatim>\<open>fetchone()\<close>\<close>
  "select_by_email e rows = find (\<lambda>r. email r = e) rows"

definition next_id :: "users \<Rightarrow> nat" where
  \<comment> \<open>\<^verbatim>\<open>INTEGER PRIMARY KEY AUTOINCREMENT\<close>: one more than the largest id used (no row is ever deleted)\<close>
  "next_id rows = Suc (fold max (map user_id rows) 0)"

definition sqlite_integer :: "int \<Rightarrow> bool" where
  \<comment> \<open>a Python \<^verbatim>\<open>int\<close> binds to a statement parameter only if it fits in 64 signed bits; otherwise \<^verbatim>\<open>execute\<close> raises \<^verbatim>\<open>OverflowError\<close>\<close>
  "sqlite_integer v = (- 9223372036854775808 \<le> v \<and> v \<le> 9223372036854775807)"

definition binds :: "int option \<Rightarrow> bool" where
  "binds v = (case v of None \<Rightarrow> True | Some i \<Rightarrow> sqlite_integer i)"

definition insert_user ::
  "string \<Rightarrow> string \<Rightarrow> string \<Rightarrow> int option \<Rightarrow> string option \<Rightarrow> string option \<Rightarrow> string option
     \<Rightarrow> users \<Rightarrow> exn + users" where
  \<comment> \<open>\<^verbatim>\<open>INSERT INTO users (username, password, email, age, location, phone, language) VALUES (?, ...)\<close>:
      the parameters are bound first, then the \<^verbatim>\<open>UNIQUE\<close> constraint on email is checked\<close>
  "insert_user new_username hashed new_email new_age new_location new_phone new_language rows =
     (if \<not> binds new_age then Inl OverflowError
      else if list_ex (\<lambda>r. email r = new_email) rows then Inl IntegrityError
      else Inr (rows @ [\<lparr>user_id = next_id rows,
                         username = Some new_username,
                         password = hashed,
                         email = new_email,
                         age = new_age,
                         location = new_location,
                         phone = new_phone,
                         language = new_language\<rparr>]))"

section \<open>Configuration and the password hasher\<close>

text \<open>
  \<^verbatim>\<open>SECRET_KEY\<close> is read from the process environment. \<^verbatim>\<open>pwd_context\<close> is passlib's
  bcrypt context, a library outside the repository. What it computes is a parameter of the
  model: \<open>pwd_hash salt pw\<close> for \<^verbatim>\<open>pwd_context.hash(pw)\<close> (the salt is the randomness the
  library draws) and \<open>pwd_verify plain hashed\<close> for \<^verbatim>\<open>pwd_context.verify(plain, hashed)\<close>,
  each returning its value or the exception it raises. One raise is fixed by the model:
  the bcrypt handler refuses a password that holds a NUL byte with
  \<^verbatim>\<open>PasswordValueError\<close>, when hashing and, once the stored hash is recognised, when
  verifying.
\<close>

record env =
  SECRET_KEY :: string
  pwd_hash :: "string \<Rightarrow> string \<Rightarrow> exn + string"
  pwd_verify :: "string \<Rightarrow> string \<Rightarrow> exn + bool"

definition ACCESS_TOKEN_EXPIRE_MINUTES :: int where
  "ACCESS_TOKEN_EXPIRE_MINUTES = 60"

definition RESET_TOKEN_EXPIRE_MINUTES :: int where
  "RESET_TOKEN_EXPIRE_MINUTES = 15"

definition get_password_hash :: "env \<Rightarrow> string \<Rightarrow> string \<Rightarrow> exn + string" where
  "get_password_hash E salt pw =
     (if CHR 0x00 \<in> set pw then Inl PasswordValueError else pwd_hash E salt pw)"

definition verify_password :: "env \<Rightarrow> string \<Rightarrow> string \<Rightarrow> exn + bool" where
  "verify_password E plain hashed =
     (case pwd_verify E plain hashed of
        Inl e \<Rightarrow> Inl e
      | Inr ok \<Rightarrow> if CHR 0x00 \<in> set plain then Inl PasswordValueError else Inr ok)"

section \<open>Clock readings\<close>

text \<open>
  \<^verbatim>\<open>datetime.utcnow()\<close> reads the clock to the microsecond: a clock reading is a number of
  microseconds since the epoch. The token library works in whole seconds: it stores
  \<^verbatim>\<open>timegm(exp.utctimetuple())\<close> in the token and compares it with
  \<^verbatim>\<open>timegm(now.utctimetuple())\<close>, both of which drop the microseconds.
\<close>

definition timedelta_minutes :: "int \<Rightarrow> int" where
  "timedelta_minutes minutes = 60000000 * minutes"

definition timegm :: "int \<Rightarrow> int" where
  "timegm t = t div 1000000"

section \<open>Signed tokens (jose.jwt with HS256)\<close>

text \<open>
  The payload dictionary holds the keys \<^verbatim>\<open>sub\<close> and \<^verbatim>\<open>exp\<close>; an absent key is \<open>None\<close>,
  and \<^verbatim>\<open>exp\<close> is in whole seconds.

  A token is modelled symbolically: either a payload together with the key that signed it,
  or a string that does not parse as a token. Decoding checks the signature first, then the
  expiry against the clock, and reports every failure as \<^verbatim>\<open>JWTError\<close> (of which
  \<^verbatim>\<open>ExpiredSignatureError\<close> is a subclass, so that \<^verbatim>\<open>except JWTError\<close> catches both).
\<close>

record claims =
  sub :: "string option"
  exp :: "int option"

datatype token = Signed claims string | Malformed

datatype jwt_error = JWTError | ExpiredSignatureError

definition jwt_encode :: "claims \<Rightarrow> string \<Rightarrow> token" where
  "jwt_encode to_encode key = Signed to_encode key"

fun jwt_decode :: "token \<Rightarrow> string \<Rightarrow> int \<Rightarrow> jwt_error + claims" where
  "jwt_decode Malformed key now = Inl JWTError"
| "jwt_decode (Signed payload k) key now =
     (if k \<noteq> key then Inl JWTError
      else case exp payload of
             None \<Rightarrow> Inr payload
           | Some e \<Rightarrow> if e < timegm now then Inl ExpiredSignatureError else Inr payload)"

definition create_access_token :: "env \<Rightarrow> int \<Rightarrow> claims \<Rightarrow> int \<Rightarrow> token" where
  \<comment> \<open>\<open>now\<close> is the reading of \<^verbatim>\<open>datetime.utcnow()\<close>; the expiry \<open>now + timedelta(minutes)\<close> is encoded in whole seconds\<close>
  "create_access_token E now data minutes =
     (let to_encode = data\<lparr>exp := Some (timegm (now + timedelta_minutes minutes))\<rparr>
      in jwt_encode to_encode (SECRET_KEY E))"

definition token_subject :: "env \<Rightarrow> int \<Rightarrow> token \<Rightarrow> failure + string" where
  \<comment> \<open>the \<^verbatim>\<open>try\<close> block of \<^verbatim>\<open>get_current_user\<close>; \<^verbatim>\<open>not email\<close> holds for \<^verbatim>\<open>None\<close> and for the empty string\<close>
  "token_subject E now tok =
     (case jwt_decode tok (SECRET_KEY E) now of
        Inl err \<Rightarrow> Inl (HTTPException 401 ''Invalid token'')
      | Inr payload \<Rightarrow>
          (case sub payload of
             None \<Rightarrow> Inl (HTTPException 401 ''Invalid token'')
           | Some e \<Rightarrow> if e = [] then Inl (HTTPException 401 ''Invalid token'') else Inr e))"

definition get_current_user :: "env \<Rightarrow> int \<Rightarrow> token \<Rightarrow> users \<Rightarrow> failure + user_row" where
  "get_current_user E now tok rows =
     (case token_subject E now tok of
        Inl err \<Rightarrow> Inl err
      | Inr e \<Rightarrow>
          (case select_by_email e rows of
             None \<Rightarrow> Inl (HTTPException 401 ''User not found'')
           | Some row \<Rightarrow> Inr row))"

section \<open>The notification collaborator\<close>

text \<open>
  \<^verbatim>\<open>send_reset_email\<close> builds the reset link and hands it to SMTP inside
  \<^verbatim>\<open>try ... except Exception\<close>: whether the SMTP exchange raises is the input \<open>smtp_ok\<close>,
  and the function returns normally either way. Its result here is what it did.
\<close>

datatype dispatch = Sent string token | FailedToSend

definition send_reset_email :: "bool \<Rightarrow> string \<Rightarrow> token \<Rightarrow> dispatch" where
  "send_reset_email smtp_ok to_email tok =
     (if smtp_ok then Sent to_email tok else FailedToSend)"

section \<open>Request schemas\<close>

record RegisterUser =
  reg_username :: string
  reg_email :: string
  reg_password :: string
  reg_age :: "int option"
  reg_location :: "string option"
  reg_phone :: "string option"
  reg_language :: "string option"

record UpdateProfile =
  upd_username :: "string option"
  upd_age :: "int option"
  upd_location :: "string option"
  upd_phone :: "string option"
  upd_language :: "string option"

record ResetPasswordRequest =
  req_token :: token
  req_new_password :: string

section \<open>Endpoints\<close>

text \<open>
  An endpoint that writes returns its outcome and the table after the call. The salt drawn
  by the hasher and the clock reading are arguments.
\<close>

definition register :: "env \<Rightarrow> string \<Rightarrow> RegisterUser \<Rightarrow> users \<Rightarrow> (failure + string) \<times> users" where
  \<comment> \<open>the password is hashed while the parameter tuple is built, before \<^verbatim>\<open>execute\<close>;
      only \<^verbatim>\<open>sqlite3.IntegrityError\<close> is caught\<close>
  "register E salt user rows =
     (case get_password_hash E salt (reg_password user) of
        Inl e \<Rightarrow> (Inl (Unhandled e), rows)
      | Inr hashed \<Rightarrow>
          (case insert_user (reg_username user) hashed (reg_email user) (reg_age user)
                  (reg_location user) (reg_phone user) (reg_language user) rows of
             Inl IntegrityError \<Rightarrow> (Inl (HTTPException 400 ''Email already registered''), rows)
           | Inl e \<Rightarrow> (Inl (Unhandled e), rows)
           | Inr rows' \<Rightarrow> (Inr ''User registered successfully'', rows')))"

definition login :: "env \<Rightarrow> int \<Rightarrow> string \<Rightarrow> string \<Rightarrow> users \<Rightarrow> failure + token \<times> string" where
  "login E now form_username form_password rows =
     (case get_user_by_email_or_username form_username rows of
        None \<Rightarrow> Inl (HTTPException 401 ''Invalid username/email or password'')
      | Some user \<Rightarrow>
          (case verify_password E form_password (password user) of
             Inl e \<Rightarrow> Inl (Unhandled e)
           | Inr ok \<Rightarrow>
               if \<not> ok
               then Inl (HTTPException 401 ''Invalid username/email or password'')
               else Inr (create_access_token E now \<lparr>sub = Some (email user), exp = None\<rparr>
                           ACCESS_TOKEN_EXPIRE_MINUTES,
                         ''bearer'')))"

record profile =
  p_username :: "string option"
  p_email :: string
  p_age :: "int option"
  p_location :: "string option"
  p_phone :: "string option"
  p_language :: "string option"

definition get_profile :: "env \<Rightarrow> int \<Rightarrow> token \<Rightarrow> users \<Rightarrow> failure + profile" where
  "get_profile E now tok rows =
     (case get_current_user E now tok rows of
        Inl err \<Rightarrow> Inl err
      | Inr current_user \<Rightarrow>
          Inr \<lparr>p_username = username current_user,
               p_email = email current_user,
               p_age = age current_user,
               p_location = location current_user,
               p_phone = phone current_user,
               p_language = language current_user\<rparr>)"

text \<open>
  \<^verbatim>\<open>update_profile\<close> walks the five attribute names in order and keeps one
  \<^verbatim>\<open>name = ?\<close> assignment for each attribute of the body that is not \<^verbatim>\<open>None\<close>.
\<close>

datatype assignment =
    SetUsername string
  | SetAge int
  | SetLocation string
  | SetPhone string
  | SetLanguage string

definition collect_fields :: "UpdateProfile \<Rightarrow> assignment list" where
  "collect_fields payload =
     (case upd_username payload of None \<Rightarrow> [] | Some v \<Rightarrow> [SetUsername v]) @
     (case upd_age payload of None \<Rightarrow> [] | Some v \<Rightarrow> [SetAge v]) @
     (case upd_location payload of None \<Rightarrow> [] | Some v \<Rightarrow> [SetLocation v]) @
     (case upd_phone payload of None \<Rightarrow> [] | Some v \<Rightarrow> [SetPhone v]) @
     (case upd_language payload of None \<Rightarrow> [] | Some v \<Rightarrow> [SetLanguage v])"

fun assign :: "assignment \<Rightarrow> user_row \<Rightarrow> user_row" where
  "assign (SetUsername v) r = r\<lparr>username := Some v\<rparr>"
| "assign (SetAge v) r = r\<lparr>age := Some v\<rparr>"
| "assign (SetLocation v) r = r\<lparr>location := Some v\<rparr>"
| "assign (SetPhone v) r = r\<lparr>phone := Some v\<rparr>"
| "assign (SetLanguage v) r = r\<lparr>language := Some v\<rparr>"

fun binds_value :: "assignment \<Rightarrow> bool" where
  "binds_value (SetAge v) = sqlite_integer v"
| "binds_value a = True"

definition update_users_set :: "assignment list \<Rightarrow> string \<Rightarrow> users \<Rightarrow> exn + users" where
  \<comment> \<open>\<^verbatim>\<open>UPDATE users SET ... WHERE email = ?\<close>: the values are bound first, and nothing is written when one does not bind\<close>
  "update_users_set set_fields e rows =
     (if \<not> list_all binds_value set_fields then Inl OverflowError
      else Inr (map (\<lambda>r. if email r = e then fold assign set_fields r else r) rows))"

definition update_profile ::
  "env \<Rightarrow> int \<Rightarrow> UpdateProfile \<Rightarrow> token \<Rightarrow> users \<Rightarrow> (failure + string) \<times> users" where
  "update_profile E now payload tok rows =
     (case get_current_user E now tok rows of
        Inl err \<Rightarrow> (Inl err, rows)
      | Inr current_user \<Rightarrow>
          (let set_fields = collect_fields payload
           in if set_fields = [] then (Inr ''Nothing to update'', rows)
              else (case update_users_set set_fields (email current_user) rows of
                      Inl e \<Rightarrow> (Inl (Unhandled e), rows)
                    | Inr rows' \<Rightarrow> (Inr ''Profile updated successfully'', rows'))))"

text \<open>
  \<^verbatim>\<open>forgot_password\<close> answers with a message only. The token it creates and what the
  mail collaborator did with it are effects, recorded next to the message.
\<close>

record forgot_outcome =
  message :: string
  reset_token :: token
  mail :: dispatch

definition forgot_password ::
  "env \<Rightarrow> bool \<Rightarrow> int \<Rightarrow> string \<Rightarrow> users \<Rightarrow> failure + forgot_outcome" where
  "forgot_password E smtp_ok now email_param rows =
     (case get_user_by_email_or_username email_param rows of
        None \<Rightarrow> Inl (HTTPException 404 ''Email not found'')
      | Some user \<Rightarrow>
          (let tok = create_access_token E now \<lparr>sub = Some (email user), exp = None\<rparr>
                       RESET_TOKEN_EXPIRE_MINUTES
           in Inr \<lparr>message = ''Password reset email sent'',
                   reset_token = tok,
                   mail = send_reset_email smtp_ok (email user) tok\<rparr>))"

definition update_users_password :: "string \<Rightarrow> string \<Rightarrow> users \<Rightarrow> users" where
  \<comment> \<open>\<^verbatim>\<open>UPDATE users SET password = ? WHERE email = ?\<close>\<close>
  "update_users_password hashed_pw e rows =
     map (\<lambda>r. if email r = e then r\<lparr>password := hashed_pw\<rparr> else r) rows"

definition reset_password ::
  "env \<Rightarrow> string \<Rightarrow> int \<Rightarrow> ResetPasswordRequest \<Rightarrow> users \<Rightarrow> (failure + string) \<times> users" where
  \<comment> \<open>\<^verbatim>\<open>get_password_hash\<close> is called after the \<^verbatim>\<open>try\<close> block: what it raises is not caught\<close>
  "reset_password E salt now payload rows =
     (case jwt_decode (req_token payload) (SECRET_KEY E) now of
        Inl err \<Rightarrow> (Inl (HTTPException 400 ''Invalid or expired token''), rows)
      | Inr data \<Rightarrow>
          (case sub data of
             None \<Rightarrow> (Inl (HTTPException 400 ''Invalid token''), rows)
           | Some e \<Rightarrow>
               if e = [] then (Inl (HTTPException 400 ''Invalid token''), rows)
               else (case get_password_hash E salt (req_new_password payload) of
                       Inl ex \<Rightarrow> (Inl (Unhandled ex), rows)
                     | Inr hashed_pw \<Rightarrow>
                         (Inr ''Password reset successful'',
                          update_users_password hashed_pw e rows))))"

text \<open>The six public operations, and the table each leaves behind.\<close>

datatype request =
    Register string RegisterUser
  | Login string string
  | GetProfile token
  | PutProfile UpdateProfile token
  | ForgotPassword bool string
  | ResetPassword string ResetPasswordRequest

fun table_after :: "env \<Rightarrow> int \<Rightarrow> request \<Rightarrow> users \<Rightarrow> users" where
  "table_after E now (Register salt user) rows = snd (register E salt user rows)"
| "table_after E now (Login u p) rows = rows"
| "table_after E now (GetProfile tok) rows = rows"
| "table_after E now (PutProfile payload tok) rows = snd (update_profile E now payload tok rows)"
| "table_after E now (ForgotPassword smtp_ok e) rows = rows"
| "table_after E now (ResetPassword salt payload) rows = snd (reset_password E salt now payload rows)"

section \<open>Data to run the model on\<close>

text \<open>
  A hasher that meets the library's interface: the digest is the salt, a separator and the
  plaintext; verification refuses a digest without separator and otherwise compares what
  follows the first separator.
\<close>

definition demo_hash :: "string \<Rightarrow> string \<Rightarrow> exn + string" where
  "demo_hash salt pw = Inr (filter (\<lambda>c. c \<noteq> CHR ''$'') salt @ ''$'' @ pw)"

definition demo_verify :: "string \<Rightarrow> string \<Rightarrow> exn + bool" where
  "demo_verify plain hashed =
     (if CHR ''$'' \<notin> set hashed then Inl UnknownHashError
      else Inr (tl (dropWhile (\<lambda>c. c \<noteq> CHR ''$'') hashed) = plain))"

definition demo_env :: env where
  "demo_env = \<lparr>SECRET_KEY = ''supersecretkey123'', pwd_hash = demo_hash, pwd_verify = demo_verify\<rparr>"

text \<open>A small table and some request bodies.\<close>

definition alice :: user_row where
  "alice = \<lparr>user_id = 1, username = Some ''alice'', password = ''s0$pw1'',
            email = ''a@x.com'', age = Some 30, location = None, phone = None,
            language = Some ''en''\<rparr>"

definition bob :: user_row where
  "bob = \<lparr>user_id = 2, username = Some ''bob'', password = ''s1$hunter2'',
          email = ''b@x.com'', age = None, location = Some ''NYC'', phone = None,
          language = None\<rparr>"

definition carol :: user_row where
  "carol = \<lparr>user_id = 1, username = Some ''carol'', password = ''s2$pw3'',
            email = [], age = None, location = None, phone = None, language = None\<rparr>"

definition squatter :: user_row where
  "squatter = \<lparr>user_id = 1, username = Some ''b@x.com'', password = ''s3$pw5'',
               email = [], age = None, location = None, phone = None, language = None\<rparr>"



definition set_age_31 :: UpdateProfile where
  "set_age_31 = \<lparr>upd_username = None, upd_age = Some 31, upd_location = None,
                 upd_phone = None, upd_language = None\<rparr>"

definition set_nothing :: UpdateProfile where
  "set_nothing = \<lparr>upd_username = None, upd_age = None, upd_location = None,
                  upd_phone = None, upd_language = None\<rparr>"

definition token_for :: "string \<Rightarrow> int \<Rightarrow> token" where
  \<comment> \<open>the token that \<open>create_access_token\<close> returns for this subject and expiry (in whole seconds) under the key of \<open>demo_env\<close>\<close>
  "token_for s e = Signed \<lparr>sub = Some s, exp = Some e\<rparr> ''supersecretkey123''"

section \<open>Facts about the clock, the table and the endpoints\<close>

lemma timegm_before: "t \<le> x \<Longrightarrow> \<not> timegm x < timegm t"
  unfolding timegm_def by (simp add: zdiv_mono1 not_less)

lemma timegm_after: "x + 1000000 \<le> t \<Longrightarrow> timegm x < timegm t"
proof -
  assume "x + 1000000 \<le> t"
  then have "(x + 1000000) div 1000000 \<le> t div 1000000"
    by (rule zdiv_mono1) simp
  then show ?thesis unfolding timegm_def by simp
qed

lemma lookup_after_password_update:
  "get_user_by_email_or_username i (update_users_password h e rows) =
     map_option (\<lambda>r. if email r = e then r\<lparr>password := h\<rparr> else r)
       (get_user_by_email_or_username i rows)"
  unfolding get_user_by_email_or_username_def update_users_password_def
  by (induction rows) auto


lemma lookup_member:
  "get_user_by_email_or_username i rows = Some u \<Longrightarrow>
     u \<in> set rows \<and> (email u = i \<or> username u = Some i)"
  unfolding get_user_by_email_or_username_def find_Some_iff
  by (metis nth_mem)

lemma lookup_none_iff:
  "(get_user_by_email_or_username i rows = None) =
     (\<not> (\<exists>r \<in> set rows. email r = i \<or> username r = Some i))"
  unfolding get_user_by_email_or_username_def find_None_iff by blast

lemma select_member:
  "select_by_email e rows = Some u \<Longrightarrow> u \<in> set rows \<and> email u = e"
  unfolding select_by_email_def find_Some_iff
  by (metis nth_mem)

lemma select_none_iff:
  "(select_by_email e rows = None) = (\<not> (\<exists>r \<in> set rows. email r = e))"
  unfolding select_by_email_def find_None_iff by blast

lemma select_present:
  "u \<in> set rows \<Longrightarrow> \<exists>r. select_by_email (email u) rows = Some r \<and> email r = email u"
  using select_none_iff [of "email u" rows] select_member [of "email u" rows]
  by (cases "select_by_email (email u) rows") auto

lemma issued_token:
  "create_access_token E now \<lparr>sub = Some s, exp = None\<rparr> minutes
     = Signed \<lparr>sub = Some s, exp = Some (timegm (now + timedelta_minutes minutes))\<rparr> (SECRET_KEY E)"
  by (simp add: create_access_token_def jwt_encode_def)

lemma subject_of_signed:
  "token_subject E t (Signed \<lparr>sub = Some s, exp = Some e\<rparr> (SECRET_KEY E)) =
     (if e < timegm t \<or> s = [] then Inl (HTTPException 401 ''Invalid token'') else Inr s)"
  by (simp add: token_subject_def)

lemma current_user_signed:
  "get_current_user E t (Signed \<lparr>sub = Some s, exp = Some e\<rparr> (SECRET_KEY E)) rows =
     (if e < timegm t \<or> s = [] then Inl (HTTPException 401 ''Invalid token'')
      else case select_by_email s rows of
             None \<Rightarrow> Inl (HTTPException 401 ''User not found'')
           | Some row \<Rightarrow> Inr row)"
  by (simp add: get_current_user_def subject_of_signed)

lemma reset_password_signed:
  "reset_password E salt t \<lparr>req_token = Signed \<lparr>sub = Some s, exp = Some e\<rparr> (SECRET_KEY E),
                            req_new_password = np\<rparr> rows =
     (if e < timegm t then (Inl (HTTPException 400 ''Invalid or expired token''), rows)
      else if s = [] then (Inl (HTTPException 400 ''Invalid token''), rows)
      else case get_password_hash E salt np of
             Inl ex \<Rightarrow> (Inl (Unhandled ex), rows)
           | Inr h \<Rightarrow> (Inr ''Password reset successful'', update_users_password h s rows))"
  by (simp add: reset_password_def)

lemma forgot_password_found:
  "get_user_by_email_or_username ident rows = Some u \<Longrightarrow>
     forgot_password E smtp_ok now ident rows =
       Inr \<lparr>message = ''Password reset email sent'',
            reset_token = Signed \<lparr>sub = Some (email u),
                                  exp = Some (timegm (now + timedelta_minutes 15))\<rparr> (SECRET_KEY E),
            mail = send_reset_email smtp_ok (email u)
                     (Signed \<lparr>sub = Some (email u),
                              exp = Some (timegm (now + timedelta_minutes 15))\<rparr> (SECRET_KEY E))\<rparr>"
  by (simp add: forgot_password_def Let_def issued_token RESET_TOKEN_EXPIRE_MINUTES_def)

lemma login_found:
  "get_user_by_email_or_username ident rows = Some u \<Longrightarrow>
     login E now ident pw rows =
       (case verify_password E pw (password u) of
          Inl e \<Rightarrow> Inl (Unhandled e)
        | Inr ok \<Rightarrow>
            if ok
            then Inr (Signed \<lparr>sub = Some (email u),
                              exp = Some (timegm (now + timedelta_minutes 60))\<rparr> (SECRET_KEY E),
                      ''bearer'')
            else Inl (HTTPException 401 ''Invalid username/email or password''))"
  by (simp add: login_def issued_token ACCESS_TOKEN_EXPIRE_MINUTES_def split: sum.splits)


lemma fold_assign_collect:
  "username (fold assign (collect_fields p) r) =
     (case upd_username p of None \<Rightarrow> username r | Some v \<Rightarrow> Some v)"
  "age (fold assign (collect_fields p) r) =
     (case upd_age p of None \<Rightarrow> age r | Some v \<Rightarrow> Some v)"
  "location (fold assign (collect_fields p) r) =
     (case upd_location p of None \<Rightarrow> location r | Some v \<Rightarrow> Some v)"
  "phone (fold assign (collect_fields p) r) =
     (case upd_phone p of None \<Rightarrow> phone r | Some v \<Rightarrow> Some v)"
  "language (fold assign (collect_fields p) r) =
     (case upd_language p of None \<Rightarrow> language r | Some v \<Rightarrow> Some v)"
  by (cases "upd_username p"; cases "upd_age p"; cases "upd_location p";
      cases "upd_phone p"; cases "upd_language p"; simp add: collect_fields_def)+


lemma collect_fields_bind:
  "list_all binds_value (collect_fields p) = binds (upd_age p)"
  by (cases "upd_username p"; cases "upd_age p"; cases "upd_location p";
      cases "upd_phone p"; cases "upd_language p"; simp add: collect_fields_def binds_def)

lemma update_profile_table:
  "snd (update_profile E now p tok rows) =
     (case get_current_user E now tok rows of
        Inl err \<Rightarrow> rows
      | Inr cu \<Rightarrow>
          if binds (upd_age p)
          then map (\<lambda>r. if email r = email cu then fold assign (collect_fields p) r else r) rows
          else rows)"
  by (simp add: update_profile_def update_users_set_def collect_fields_bind Let_def map_idI
           split: sum.splits)

lemma reset_password_table:
  "snd (reset_password E salt now payload rows) = rows
   \<or> (\<exists>h e. snd (reset_password E salt now payload rows) = update_users_password h e rows)"
  by (auto simp: reset_password_def split: sum.splits option.splits)

lemma update_users_password_nth:
  "i < length rows \<Longrightarrow>
     update_users_password h e rows ! i =
       (if email (rows ! i) = e then (rows ! i)\<lparr>password := h\<rparr> else rows ! i)"
  by (simp add: update_users_password_def)

lemma register_table:
  "snd (register E salt user rows) = rows
   \<or> (\<exists>r. snd (register E salt user rows) = rows @ [r])"
  by (auto simp: register_def insert_user_def split: sum.splits exn.splits)

section \<open>Token issue and verification\<close>

text \<open>
  C1 (as amended). For every non-empty subject \<open>s\<close> and TTL \<open>ttl\<close> (in minutes), the token
  that \<open>create_access_token\<close> issues at clock reading \<open>now\<close> carries subject \<open>s\<close> and the
  expiry \<open>now + ttl\<close> cut to whole seconds. Verified at any time strictly before
  \<open>now + ttl\<close>, the verification block of \<open>get_current_user\<close> returns \<open>s\<close>; verified one
  second or more after \<open>now + ttl\<close>, it fails with 401; at any time, it fails exactly when
  the whole second of the clock is past the whole second of the expiry.
\<close>

theorem issue_verify_boundary:
  assumes "s \<noteq> []"
  shows "create_access_token E now \<lparr>sub = Some s, exp = None\<rparr> ttl
           = Signed \<lparr>sub = Some s, exp = Some (timegm (now + timedelta_minutes ttl))\<rparr> (SECRET_KEY E)
       \<and> (t < now + timedelta_minutes ttl \<longrightarrow>
             token_subject E t (create_access_token E now \<lparr>sub = Some s, exp = None\<rparr> ttl) = Inr s)
       \<and> (now + timedelta_minutes ttl + 1000000 \<le> t' \<longrightarrow>
             token_subject E t' (create_access_token E now \<lparr>sub = Some s, exp = None\<rparr> ttl)
               = Inl (HTTPException 401 ''Invalid token''))
       \<and> token_subject E t'' (create_access_token E now \<lparr>sub = Some s, exp = None\<rparr> ttl)
           = (if timegm (now + timedelta_minutes ttl) < timegm t''
              then Inl (HTTPException 401 ''Invalid token'') else Inr s)"
proof -
  have before: "t < now + timedelta_minutes ttl \<longrightarrow>
      token_subject E t (create_access_token E now \<lparr>sub = Some s, exp = None\<rparr> ttl) = Inr s"
    using assms timegm_before [of t "now + timedelta_minutes ttl"]
    by (simp add: issued_token subject_of_signed)
  have after: "now + timedelta_minutes ttl + 1000000 \<le> t' \<longrightarrow>
      token_subject E t' (create_access_token E now \<lparr>sub = Some s, exp = None\<rparr> ttl)
        = Inl (HTTPException 401 ''Invalid token'')"
    using timegm_after [of "now + timedelta_minutes ttl" t']
    by (simp add: issued_token subject_of_signed)
  have exact: "token_subject E t'' (create_access_token E now \<lparr>sub = Some s, exp = None\<rparr> ttl)
           = (if timegm (now + timedelta_minutes ttl) < timegm t''
              then Inl (HTTPException 401 ''Invalid token'') else Inr s)"
    using assms by (simp add: issued_token subject_of_signed)
  from issued_token [of E now s ttl] before after exact show ?thesis by blast
qed

theorem issue_verify_boundary_witness:
  "create_access_token demo_env 1000000000 \<lparr>sub = Some ''a@x.com'', exp = None\<rparr> 60
           = Signed \<lparr>sub = Some ''a@x.com'', exp = Some 4600\<rparr> (SECRET_KEY demo_env)
   \<and> token_subject demo_env 4599999999
        (create_access_token demo_env 1000000000 \<lparr>sub = Some ''a@x.com'', exp = None\<rparr> 60)
       = Inr ''a@x.com''
   \<and> token_subject demo_env 4601000000
        (create_access_token demo_env 1000000000 \<lparr>sub = Some ''a@x.com'', exp = None\<rparr> 60)
       = Inl (HTTPException 401 ''Invalid token'')"
  using issue_verify_boundary [of "''a@x.com''" demo_env 1000000000 60 4599999999 4601000000 0]
  by (auto simp: timegm_def timedelta_minutes_def)

text \<open>
  C1 as stated fails twice. The token issued for the empty subject at time 0 with a TTL of
  60 minutes is rejected at time 0, before its expiry. And the token issued for
  \<open>a@x.com\<close> at 1000 s with a TTL of 60 minutes, whose expiry is 4600 s, still verifies at
  4600.9 s, after its expiry.
\<close>

theorem issue_verify_boundary_counterexample:
  "(0::int) < 0 + timedelta_minutes 60
   \<and> token_subject demo_env 0 (create_access_token demo_env 0 \<lparr>sub = Some [], exp = None\<rparr> 60)
       = Inl (HTTPException 401 ''Invalid token'')
   \<and> 1000000000 + timedelta_minutes 60 < (4600900000::int)
   \<and> token_subject demo_env 4600900000
        (create_access_token demo_env 1000000000 \<lparr>sub = Some ''a@x.com'', exp = None\<rparr> 60)
       = Inr ''a@x.com''"
  by (simp add: token_subject_def create_access_token_def jwt_encode_def demo_env_def
                timegm_def timedelta_minutes_def)

section \<open>Login\<close>




section \<open>Register\<close>




section \<open>Authenticated requests\<close>




section \<open>Profile update\<close>




section \<open>Forgot password\<close>

text \<open>
  C4 (as amended). \<open>forgot_password\<close> answers \<open>HTTPException 404\<close> exactly when no stored
  row has the given string as its email or as its username. Otherwise it takes the first
  such row, issues a token whose subject is that row's stored email and whose expiry is 15
  minutes ahead, and answers with the success message whether or not the mail dispatch
  fails. When the given string is the username of no row, that row is one whose email is
  the given string.
\<close>

theorem forgot_password_outcomes:
  "((forgot_password E smtp_ok now ident rows = Inl (HTTPException 404 ''Email not found''))
      = (\<not> (\<exists>r \<in> set rows. email r = ident \<or> username r = Some ident)))
   \<and> ((\<exists>r \<in> set rows. email r = ident \<or> username r = Some ident) \<longrightarrow>
        (\<exists>u. get_user_by_email_or_username ident rows = Some u
             \<and> u \<in> set rows
             \<and> (email u = ident \<or> username u = Some ident)
             \<and> ((\<forall>r \<in> set rows. username r \<noteq> Some ident) \<longrightarrow> email u = ident)
             \<and> forgot_password E smtp_ok now ident rows =
                 Inr \<lparr>message = ''Password reset email sent'',
                      reset_token = Signed \<lparr>sub = Some (email u),
                                            exp = Some (timegm (now + timedelta_minutes 15))\<rparr>
                                      (SECRET_KEY E),
                      mail = (if smtp_ok
                              then Sent (email u)
                                     (Signed \<lparr>sub = Some (email u),
                                              exp = Some (timegm (now + timedelta_minutes 15))\<rparr>
                                        (SECRET_KEY E))
                              else FailedToSend)\<rparr>))"
proof (intro conjI impI)
  show "(forgot_password E smtp_ok now ident rows = Inl (HTTPException 404 ''Email not found''))
      = (\<not> (\<exists>r \<in> set rows. email r = ident \<or> username r = Some ident))"
    using lookup_none_iff [of ident rows]
    by (cases "get_user_by_email_or_username ident rows")
       (simp_all add: forgot_password_def Let_def)
next
  assume "\<exists>r \<in> set rows. email r = ident \<or> username r = Some ident"
  then obtain u where u: "get_user_by_email_or_username ident rows = Some u"
    using lookup_none_iff [of ident rows]
    by (cases "get_user_by_email_or_username ident rows") auto
  have m: "u \<in> set rows \<and> (email u = ident \<or> username u = Some ident)"
    using lookup_member [OF u] .
  have only_email: "(\<forall>r \<in> set rows. username r \<noteq> Some ident) \<longrightarrow> email u = ident"
    using m by blast
  have out: "forgot_password E smtp_ok now ident rows =
                 Inr \<lparr>message = ''Password reset email sent'',
                      reset_token = Signed \<lparr>sub = Some (email u),
                                            exp = Some (timegm (now + timedelta_minutes 15))\<rparr>
                                      (SECRET_KEY E),
                      mail = (if smtp_ok
                              then Sent (email u)
                                     (Signed \<lparr>sub = Some (email u),
                                              exp = Some (timegm (now + timedelta_minutes 15))\<rparr>
                                        (SECRET_KEY E))
                              else FailedToSend)\<rparr>"
    by (simp add: forgot_password_found [OF u] send_reset_email_def)
  from u m only_email out
  show "\<exists>u. get_user_by_email_or_username ident rows = Some u
             \<and> u \<in> set rows
             \<and> (email u = ident \<or> username u = Some ident)
             \<and> ((\<forall>r \<in> set rows. username r \<noteq> Some ident) \<longrightarrow> email u = ident)
             \<and> forgot_password E smtp_ok now ident rows =
                 Inr \<lparr>message = ''Password reset email sent'',
                      reset_token = Signed \<lparr>sub = Some (email u),
                                            exp = Some (timegm (now + timedelta_minutes 15))\<rparr>
                                      (SECRET_KEY E),
                      mail = (if smtp_ok
                              then Sent (email u)
                                     (Signed \<lparr>sub = Some (email u),
                                              exp = Some (timegm (now + timedelta_minutes 15))\<rparr>
                                        (SECRET_KEY E))
                              else FailedToSend)\<rparr>"
    by blast
qed

theorem forgot_password_outcomes_witness:
  "forgot_password demo_env False 0 ''b@x.com'' [alice, bob]
     = Inr \<lparr>message = ''Password reset email sent'',
            reset_token = token_for ''b@x.com'' 900,
            mail = FailedToSend\<rparr>
   \<and> forgot_password demo_env True 0 ''z@x.com'' [alice, bob]
     = Inl (HTTPException 404 ''Email not found'')"
proof -
  have present: "\<exists>r \<in> set [alice, bob]. email r = ''b@x.com'' \<or> username r = Some ''b@x.com''"
    by (simp add: bob_def)
  have absent: "\<not> (\<exists>r \<in> set [alice, bob]. email r = ''z@x.com'' \<or> username r = Some ''z@x.com'')"
    by (simp add: alice_def bob_def)
  have nouser: "\<forall>r \<in> set [alice, bob]. username r \<noteq> Some ''b@x.com''"
    by (simp add: alice_def bob_def)
  have a: "forgot_password demo_env False 0 ''b@x.com'' [alice, bob]
     = Inr \<lparr>message = ''Password reset email sent'',
            reset_token = token_for ''b@x.com'' 900,
            mail = FailedToSend\<rparr>"
    using forgot_password_outcomes [of demo_env False 0 "''b@x.com''" "[alice, bob]"] present nouser
    by (auto simp: token_for_def demo_env_def timegm_def timedelta_minutes_def)
  have b: "forgot_password demo_env True 0 ''z@x.com'' [alice, bob]
     = Inl (HTTPException 404 ''Email not found'')"
    using forgot_password_outcomes [of demo_env True 0 "''z@x.com''" "[alice, bob]"] absent
    by blast
  from a b show ?thesis by blast
qed

text \<open>
  C4 as stated fails when the given string is a stored username: no row has the email
  \<open>bob\<close>, yet the call is answered with success and a token for \<open>b@x.com\<close> is issued.
\<close>

theorem forgot_password_by_username_counterexample:
  "\<not> list_ex (\<lambda>r. email r = ''bob'') [alice, bob]
   \<and> forgot_password demo_env True 0 ''bob'' [alice, bob]
       = Inr \<lparr>message = ''Password reset email sent'',
              reset_token = token_for ''b@x.com'' 900,
              mail = Sent ''b@x.com'' (token_for ''b@x.com'' 900)\<rparr>"
  by (simp add: forgot_password_def get_user_by_email_or_username_def Let_def
                create_access_token_def jwt_encode_def send_reset_email_def
                RESET_TOKEN_EXPIRE_MINUTES_def token_for_def demo_env_def alice_def bob_def
                timegm_def timedelta_minutes_def)

section \<open>Password reset\<close>

text \<open>
  C3 (as amended). Let \<open>forgot_password\<close> be called for an email that the lookup resolves
  to a record with a non-empty email, and \<open>reset_password\<close> be called with the issued token
  before its expiry and with a new password that the hasher turns into a digest (it holds
  no NUL byte), verifies against that digest, and tells from the old password (the old
  password does not verify against the new digest, so the two differ). Then
  \<open>reset_password\<close> succeeds and stores the digest, a later \<open>login\<close> with that email and
  the new password succeeds, and a later \<open>login\<close> with that email and the old password
  fails with the 401 of invalid credentials.
\<close>

theorem reset_round_trip:
  assumes lookup: "get_user_by_email_or_username e rows = Some u"
      and nonempty: "email u \<noteq> []"
      and valid: "t1 < t0 + timedelta_minutes RESET_TOKEN_EXPIRE_MINUTES"
      and digest: "get_password_hash E salt newpass = Inr d"
      and accepts: "verify_password E newpass d = Inr True"
      and rejects: "verify_password E oldpass d = Inr False"
  shows "\<exists>out. forgot_password E smtp_ok t0 e rows = Inr out
           \<and> reset_password E salt t1 \<lparr>req_token = reset_token out, req_new_password = newpass\<rparr> rows
               = (Inr ''Password reset successful'', update_users_password d (email u) rows)
           \<and> (\<exists>tok. login E t2 e newpass (update_users_password d (email u) rows)
                       = Inr (tok, ''bearer''))
           \<and> login E t2 e oldpass (update_users_password d (email u) rows)
               = Inl (HTTPException 401 ''Invalid username/email or password'')"
proof -
  have live: "\<not> timegm (t0 + timedelta_minutes 15) < timegm t1"
    using valid by (intro timegm_before) (simp add: RESET_TOKEN_EXPIRE_MINUTES_def)
  have reset: "reset_password E salt t1
                 \<lparr>req_token = Signed \<lparr>sub = Some (email u),
                                       exp = Some (timegm (t0 + timedelta_minutes 15))\<rparr> (SECRET_KEY E),
                  req_new_password = newpass\<rparr> rows
                = (Inr ''Password reset successful'', update_users_password d (email u) rows)"
    using live nonempty digest by (simp add: reset_password_signed)
  have found: "get_user_by_email_or_username e (update_users_password d (email u) rows)
                 = Some (u\<lparr>password := d\<rparr>)"
    by (simp add: lookup_after_password_update lookup)
  have new: "\<exists>tok. login E t2 e newpass (update_users_password d (email u) rows) = Inr (tok, ''bearer'')"
    using accepts by (simp add: login_found [OF found])
  have old: "login E t2 e oldpass (update_users_password d (email u) rows)
               = Inl (HTTPException 401 ''Invalid username/email or password'')"
    using rejects by (simp add: login_found [OF found])
  from reset new old show ?thesis
    by (simp add: forgot_password_found [OF lookup])
qed

theorem reset_round_trip_witness:
  "reset_password demo_env ''s7'' 60000000
     \<lparr>req_token = token_for ''a@x.com'' 900, req_new_password = ''newpass''\<rparr> [alice, bob]
     = (Inr ''Password reset successful'', [alice\<lparr>password := ''s7$newpass''\<rparr>, bob])
   \<and> (\<exists>tok. login demo_env 120000000 ''a@x.com'' ''newpass'' [alice\<lparr>password := ''s7$newpass''\<rparr>, bob]
            = Inr (tok, ''bearer''))
   \<and> login demo_env 120000000 ''a@x.com'' ''pw1'' [alice\<lparr>password := ''s7$newpass''\<rparr>, bob]
       = Inl (HTTPException 401 ''Invalid username/email or password'')"
proof -
  have lookup: "get_user_by_email_or_username ''a@x.com'' [alice, bob] = Some alice"
    by (simp add: get_user_by_email_or_username_def alice_def)
  have nonempty: "email alice \<noteq> []"
    by (simp add: alice_def)
  have valid: "(60000000::int) < 0 + timedelta_minutes RESET_TOKEN_EXPIRE_MINUTES"
    by (simp add: timedelta_minutes_def RESET_TOKEN_EXPIRE_MINUTES_def)
  have digest: "get_password_hash demo_env ''s7'' ''newpass'' = Inr ''s7$newpass''"
    by (simp add: get_password_hash_def demo_env_def demo_hash_def)
  have accepts: "verify_password demo_env ''newpass'' ''s7$newpass'' = Inr True"
    by (simp add: verify_password_def demo_env_def demo_verify_def)
  have rejects: "verify_password demo_env ''pw1'' ''s7$newpass'' = Inr False"
    by (simp add: verify_password_def demo_env_def demo_verify_def)
  have forgot: "forgot_password demo_env True 0 ''a@x.com'' [alice, bob]
      = Inr \<lparr>message = ''Password reset email sent'',
             reset_token = token_for ''a@x.com'' 900,
             mail = Sent ''a@x.com'' (token_for ''a@x.com'' 900)\<rparr>"
    by (simp add: forgot_password_def get_user_by_email_or_username_def Let_def
                  create_access_token_def jwt_encode_def send_reset_email_def
                  RESET_TOKEN_EXPIRE_MINUTES_def token_for_def demo_env_def alice_def
                  timegm_def timedelta_minutes_def)
  have table: "update_users_password ''s7$newpass'' (email alice) [alice, bob]
                 = [alice\<lparr>password := ''s7$newpass''\<rparr>, bob]"
    by (simp add: update_users_password_def alice_def bob_def)
  from reset_round_trip [OF lookup nonempty valid digest accepts rejects, of True 120000000]
  show ?thesis
    by (simp add: forgot table)
qed

text \<open>
  C3 as stated fails in three ways. When the new password is the old one (\<open>alice\<close>, stored
  with the digest of \<open>pw1\<close>, resets to \<open>pw1\<close>), the later login with the old password
  succeeds. When the new password holds a NUL byte, \<open>reset_password\<close> accepts the token and
  then raises in the hasher, and the stored password stays. And when an earlier record has
  the email \<open>b@x.com\<close> of \<open>bob\<close> as its username and an empty email, the token issued for
  \<open>b@x.com\<close> has an empty subject, \<open>reset_password\<close> refuses it one minute later, and the
  login with the new password fails.
\<close>

theorem reset_round_trip_counterexample:
  "password alice = ''s0$pw1''
   \<and> verify_password demo_env ''pw1'' (password alice) = Inr True
   \<and> forgot_password demo_env True 0 ''a@x.com'' [alice, bob]
       = Inr \<lparr>message = ''Password reset email sent'',
              reset_token = token_for ''a@x.com'' 900,
              mail = Sent ''a@x.com'' (token_for ''a@x.com'' 900)\<rparr>
   \<and> reset_password demo_env ''s7'' 60000000
        \<lparr>req_token = token_for ''a@x.com'' 900, req_new_password = ''pw1''\<rparr> [alice, bob]
       = (Inr ''Password reset successful'', [alice\<lparr>password := ''s7$pw1''\<rparr>, bob])
   \<and> login demo_env 120000000 ''a@x.com'' ''pw1'' [alice\<lparr>password := ''s7$pw1''\<rparr>, bob]
       = Inr (token_for ''a@x.com'' 3720, ''bearer'')
   \<and> reset_password demo_env ''s7'' 60000000
        \<lparr>req_token = token_for ''a@x.com'' 900, req_new_password = ''np'' @ [CHR 0x00]\<rparr> [alice, bob]
       = (Inl (Unhandled PasswordValueError), [alice, bob])
   \<and> forgot_password demo_env True 0 ''b@x.com'' [squatter, bob]
       = Inr \<lparr>message = ''Password reset email sent'',
              reset_token = token_for [] 900,
              mail = Sent [] (token_for [] 900)\<rparr>
   \<and> reset_password demo_env ''s7'' 60000000
        \<lparr>req_token = token_for [] 900, req_new_password = ''newpass''\<rparr> [squatter, bob]
       = (Inl (HTTPException 400 ''Invalid token''), [squatter, bob])
   \<and> login demo_env 120000000 ''b@x.com'' ''newpass'' [squatter, bob]
       = Inl (HTTPException 401 ''Invalid username/email or password'')"
  by (simp add: forgot_password_def reset_password_def login_def
                get_user_by_email_or_username_def Let_def
                create_access_token_def jwt_encode_def send_reset_email_def
                RESET_TOKEN_EXPIRE_MINUTES_def ACCESS_TOKEN_EXPIRE_MINUTES_def
                token_for_def update_users_password_def
                get_password_hash_def verify_password_def timegm_def timedelta_minutes_def
                demo_env_def demo_hash_def demo_verify_def alice_def bob_def squatter_def)

section \<open>Reset tokens and access tokens\<close>

text \<open>
  C7 (as amended). For every stored user, the reset token that \<open>forgot_password\<close> issues
  and the access token that \<open>login\<close> issues carry the same subject under the same key and
  differ only in the expiry (15 against 60 minutes after issue), and while both are
  unexpired \<open>get_current_user\<close> and \<open>reset_password\<close> each answer the one exactly as they
  answer the other. When the stored email is not empty, the unexpired reset token is
  accepted by \<open>get_current_user\<close>, which resolves it to a row with that email, and the
  unexpired access token is accepted by \<open>reset_password\<close>, which then replaces the password
  of that email with the digest of the new password, or lets the hasher's exception
  escape when the hasher refuses the new password.
\<close>

theorem reset_and_access_tokens_interchangeable:
  assumes lookup: "get_user_by_email_or_username ident rows = Some u"
  shows "(\<exists>out. forgot_password E smtp_ok t0 ident rows = Inr out
            \<and> reset_token out
                = Signed \<lparr>sub = Some (email u), exp = Some (timegm (t0 + timedelta_minutes 15))\<rparr>
                    (SECRET_KEY E))
       \<and> (verify_password E pw (password u) = Inr True \<longrightarrow>
            login E t0 ident pw rows
              = Inr (Signed \<lparr>sub = Some (email u), exp = Some (timegm (t0 + timedelta_minutes 60))\<rparr>
                       (SECRET_KEY E),
                     ''bearer''))
       \<and> (now < t0 + timedelta_minutes 15 \<longrightarrow>
            get_current_user E now
              (Signed \<lparr>sub = Some (email u), exp = Some (timegm (t0 + timedelta_minutes 15))\<rparr>
                 (SECRET_KEY E)) rows
            = get_current_user E now
                (Signed \<lparr>sub = Some (email u), exp = Some (timegm (t0 + timedelta_minutes 60))\<rparr>
                   (SECRET_KEY E)) rows
          \<and> reset_password E salt now
              \<lparr>req_token = Signed \<lparr>sub = Some (email u),
                                    exp = Some (timegm (t0 + timedelta_minutes 15))\<rparr> (SECRET_KEY E),
               req_new_password = np\<rparr> rows
            = reset_password E salt now
                \<lparr>req_token = Signed \<lparr>sub = Some (email u),
                                      exp = Some (timegm (t0 + timedelta_minutes 60))\<rparr> (SECRET_KEY E),
                 req_new_password = np\<rparr> rows)
       \<and> (email u \<noteq> [] \<and> now < t0 + timedelta_minutes 15 \<longrightarrow>
            (\<exists>row. get_current_user E now
                      (Signed \<lparr>sub = Some (email u), exp = Some (timegm (t0 + timedelta_minutes 15))\<rparr>
                         (SECRET_KEY E)) rows = Inr row
                   \<and> email row = email u))
       \<and> (email u \<noteq> [] \<and> now' < t0 + timedelta_minutes 60 \<longrightarrow>
            reset_password E salt now'
              \<lparr>req_token = Signed \<lparr>sub = Some (email u),
                                    exp = Some (timegm (t0 + timedelta_minutes 60))\<rparr> (SECRET_KEY E),
               req_new_password = np\<rparr> rows
            = (case get_password_hash E salt np of
                 Inl ex \<Rightarrow> (Inl (Unhandled ex), rows)
               | Inr h \<Rightarrow> (Inr ''Password reset successful'',
                           update_users_password h (email u) rows)))"
proof -
  have mem: "u \<in> set rows"
    using lookup_member [OF lookup] by blast
  obtain row where row: "select_by_email (email u) rows = Some row" "email row = email u"
    using select_present [OF mem] by blast
  have live15: "now < t0 + timedelta_minutes 15 \<Longrightarrow> \<not> timegm (t0 + timedelta_minutes 15) < timegm now"
    by (intro timegm_before) simp
  have live60: "now < t0 + timedelta_minutes 15 \<Longrightarrow> \<not> timegm (t0 + timedelta_minutes 60) < timegm now"
    by (intro timegm_before) (simp add: timedelta_minutes_def)
  have live60': "now' < t0 + timedelta_minutes 60 \<Longrightarrow> \<not> timegm (t0 + timedelta_minutes 60) < timegm now'"
    by (intro timegm_before) simp
  have issue: "\<exists>out. forgot_password E smtp_ok t0 ident rows = Inr out
            \<and> reset_token out
                = Signed \<lparr>sub = Some (email u), exp = Some (timegm (t0 + timedelta_minutes 15))\<rparr>
                    (SECRET_KEY E)"
    by (simp add: forgot_password_found [OF lookup])
  have access: "verify_password E pw (password u) = Inr True \<longrightarrow>
            login E t0 ident pw rows
              = Inr (Signed \<lparr>sub = Some (email u), exp = Some (timegm (t0 + timedelta_minutes 60))\<rparr>
                       (SECRET_KEY E),
                     ''bearer'')"
    by (simp add: login_found [OF lookup])
  have same: "now < t0 + timedelta_minutes 15 \<longrightarrow>
            get_current_user E now
              (Signed \<lparr>sub = Some (email u), exp = Some (timegm (t0 + timedelta_minutes 15))\<rparr>
                 (SECRET_KEY E)) rows
            = get_current_user E now
                (Signed \<lparr>sub = Some (email u), exp = Some (timegm (t0 + timedelta_minutes 60))\<rparr>
                   (SECRET_KEY E)) rows
          \<and> reset_password E salt now
              \<lparr>req_token = Signed \<lparr>sub = Some (email u),
                                    exp = Some (timegm (t0 + timedelta_minutes 15))\<rparr> (SECRET_KEY E),
               req_new_password = np\<rparr> rows
            = reset_password E salt now
                \<lparr>req_token = Signed \<lparr>sub = Some (email u),
                                      exp = Some (timegm (t0 + timedelta_minutes 60))\<rparr> (SECRET_KEY E),
                 req_new_password = np\<rparr> rows"
    using live15 live60 by (simp add: current_user_signed reset_password_signed)
  have accepted: "email u \<noteq> [] \<and> now < t0 + timedelta_minutes 15 \<longrightarrow>
            (\<exists>row. get_current_user E now
                      (Signed \<lparr>sub = Some (email u), exp = Some (timegm (t0 + timedelta_minutes 15))\<rparr>
                         (SECRET_KEY E)) rows = Inr row
                   \<and> email row = email u)"
    using live15 row by (simp add: current_user_signed)
  have resets: "email u \<noteq> [] \<and> now' < t0 + timedelta_minutes 60 \<longrightarrow>
            reset_password E salt now'
              \<lparr>req_token = Signed \<lparr>sub = Some (email u),
                                    exp = Some (timegm (t0 + timedelta_minutes 60))\<rparr> (SECRET_KEY E),
               req_new_password = np\<rparr> rows
            = (case get_password_hash E salt np of
                 Inl ex \<Rightarrow> (Inl (Unhandled ex), rows)
               | Inr h \<Rightarrow> (Inr ''Password reset successful'',
                           update_users_password h (email u) rows))"
    using live60' by (simp add: reset_password_signed)
  from issue access same accepted resets show ?thesis by blast
qed

theorem reset_and_access_tokens_interchangeable_witness:
  "(\<exists>row. get_current_user demo_env 899000000 (token_for ''a@x.com'' 900) [alice, bob] = Inr row
           \<and> email row = ''a@x.com'')
   \<and> get_current_user demo_env 899000000 (token_for ''a@x.com'' 900) [alice, bob]
       = get_current_user demo_env 899000000 (token_for ''a@x.com'' 3600) [alice, bob]
   \<and> login demo_env 0 ''a@x.com'' ''pw1'' [alice, bob] = Inr (token_for ''a@x.com'' 3600, ''bearer'')
   \<and> reset_password demo_env ''s7'' 3599000000
        \<lparr>req_token = token_for ''a@x.com'' 3600, req_new_password = ''np''\<rparr> [alice, bob]
       = (Inr ''Password reset successful'', [alice\<lparr>password := ''s7$np''\<rparr>, bob])"
proof -
  have lookup: "get_user_by_email_or_username ''a@x.com'' [alice, bob] = Some alice"
    by (simp add: get_user_by_email_or_username_def alice_def)
  have nonempty: "email alice \<noteq> []"
    by (simp add: alice_def)
  have pw: "verify_password demo_env ''pw1'' (password alice) = Inr True"
    by (simp add: verify_password_def demo_env_def demo_verify_def alice_def)
  have t: "(899000000::int) < 0 + timedelta_minutes 15" "(3599000000::int) < 0 + timedelta_minutes 60"
    by (simp_all add: timedelta_minutes_def)
  note th = reset_and_access_tokens_interchangeable
              [OF lookup, of demo_env True 0 "''pw1''" 899000000 "''s7''" "''np''" 3599000000]
  have key: "SECRET_KEY demo_env = ''supersecretkey123''"
    by (simp add: demo_env_def)
  have e: "email alice = ''a@x.com''"
    by (simp add: alice_def)
  have secs: "timegm (0 + timedelta_minutes 15) = 900" "timegm (0 + timedelta_minutes 60) = 3600"
    by (simp_all add: timegm_def timedelta_minutes_def)
  have h: "get_password_hash demo_env ''s7'' ''np'' = Inr ''s7$np''"
    by (simp add: get_password_hash_def demo_env_def demo_hash_def)
  have u: "update_users_password ''s7$np'' ''a@x.com'' [alice, bob]
             = [alice\<lparr>password := ''s7$np''\<rparr>, bob]"
    by (simp add: update_users_password_def alice_def bob_def)
  have g: "\<exists>row. get_current_user demo_env 899000000 (token_for ''a@x.com'' 900) [alice, bob] = Inr row
                 \<and> email row = ''a@x.com''"
    using th nonempty t(1) unfolding token_for_def key e secs by blast
  have q: "get_current_user demo_env 899000000 (token_for ''a@x.com'' 900) [alice, bob]
       = get_current_user demo_env 899000000 (token_for ''a@x.com'' 3600) [alice, bob]"
    using th t(1) unfolding token_for_def key e secs by blast
  have l: "login demo_env 0 ''a@x.com'' ''pw1'' [alice, bob] = Inr (token_for ''a@x.com'' 3600, ''bearer'')"
    using th pw unfolding token_for_def key e secs by blast
  have "reset_password demo_env ''s7'' 3599000000
        \<lparr>req_token = token_for ''a@x.com'' 3600, req_new_password = ''np''\<rparr> [alice, bob]
       = (case get_password_hash demo_env ''s7'' ''np'' of
            Inl ex \<Rightarrow> (Inl (Unhandled ex), [alice, bob])
          | Inr h \<Rightarrow> (Inr ''Password reset successful'',
                      update_users_password h ''a@x.com'' [alice, bob]))"
    using th nonempty t(2) unfolding token_for_def key e secs by blast
  then have r: "reset_password demo_env ''s7'' 3599000000
        \<lparr>req_token = token_for ''a@x.com'' 3600, req_new_password = ''np''\<rparr> [alice, bob]
       = (Inr ''Password reset successful'', [alice\<lparr>password := ''s7$np''\<rparr>, bob])"
    by (simp add: h u)
  from g q l r show ?thesis by blast
qed

text \<open>
  C7 as stated fails for a user stored with the empty email: \<open>forgot_password\<close> (reached
  through the username) issues a reset token, and \<open>get_current_user\<close> rejects it while it
  is unexpired.
\<close>

theorem reset_token_empty_email_counterexample:
  "forgot_password demo_env True 0 ''carol'' [carol]
     = Inr \<lparr>message = ''Password reset email sent'',
            reset_token = token_for [] 900,
            mail = Sent [] (token_for [] 900)\<rparr>
   \<and> (1000000::int) < 0 + timedelta_minutes 15
   \<and> get_current_user demo_env 1000000 (token_for [] 900) [carol]
       = Inl (HTTPException 401 ''Invalid token'')"
  by (simp add: forgot_password_def get_user_by_email_or_username_def Let_def
                create_access_token_def jwt_encode_def send_reset_email_def
                RESET_TOKEN_EXPIRE_MINUTES_def token_for_def timegm_def timedelta_minutes_def
                get_current_user_def token_subject_def demo_env_def carol_def)

section \<open>No operation nulls a profile attribute\<close>

text \<open>
  C10. Whatever the request, every row stored before it is still stored at the same place
  after it, and each of its attributes \<open>username\<close>, \<open>age\<close>, \<open>location\<close>, \<open>phone\<close>,
  \<open>language\<close> that was not null before is not null after. For \<open>update_profile\<close> a field
  that is null in the body keeps its stored value in every row, and every request other
  than \<open>update_profile\<close> leaves the five attributes of every stored row as they were.
\<close>

theorem profile_attributes_never_nulled:
  assumes "i < length rows"
  shows "i < length (table_after E now req rows)
    \<and> (username (rows ! i) \<noteq> None \<longrightarrow> username (table_after E now req rows ! i) \<noteq> None)
    \<and> (age (rows ! i) \<noteq> None \<longrightarrow> age (table_after E now req rows ! i) \<noteq> None)
    \<and> (location (rows ! i) \<noteq> None \<longrightarrow> location (table_after E now req rows ! i) \<noteq> None)
    \<and> (phone (rows ! i) \<noteq> None \<longrightarrow> phone (table_after E now req rows ! i) \<noteq> None)
    \<and> (language (rows ! i) \<noteq> None \<longrightarrow> language (table_after E now req rows ! i) \<noteq> None)
    \<and> (upd_username payload = None \<longrightarrow>
          username (table_after E now (PutProfile payload tok) rows ! i) = username (rows ! i))
    \<and> (upd_age payload = None \<longrightarrow>
          age (table_after E now (PutProfile payload tok) rows ! i) = age (rows ! i))
    \<and> (upd_location payload = None \<longrightarrow>
          location (table_after E now (PutProfile payload tok) rows ! i) = location (rows ! i))
    \<and> (upd_phone payload = None \<longrightarrow>
          phone (table_after E now (PutProfile payload tok) rows ! i) = phone (rows ! i))
    \<and> (upd_language payload = None \<longrightarrow>
          language (table_after E now (PutProfile payload tok) rows ! i) = language (rows ! i))
    \<and> ((\<forall>p t. req \<noteq> PutProfile p t) \<longrightarrow>
          username (table_after E now req rows ! i) = username (rows ! i)
        \<and> age (table_after E now req rows ! i) = age (rows ! i)
        \<and> location (table_after E now req rows ! i) = location (rows ! i)
        \<and> phone (table_after E now req rows ! i) = phone (rows ! i)
        \<and> language (table_after E now req rows ! i) = language (rows ! i))"
proof -
  have put: "\<And>p t.
      i < length (table_after E now (PutProfile p t) rows)
    \<and> username (table_after E now (PutProfile p t) rows ! i)
        = (if upd_username p = None then username (rows ! i)
           else username (table_after E now (PutProfile p t) rows ! i))
    \<and> age (table_after E now (PutProfile p t) rows ! i)
        = (if upd_age p = None then age (rows ! i)
           else age (table_after E now (PutProfile p t) rows ! i))
    \<and> location (table_after E now (PutProfile p t) rows ! i)
        = (if upd_location p = None then location (rows ! i)
           else location (table_after E now (PutProfile p t) rows ! i))
    \<and> phone (table_after E now (PutProfile p t) rows ! i)
        = (if upd_phone p = None then phone (rows ! i)
           else phone (table_after E now (PutProfile p t) rows ! i))
    \<and> language (table_after E now (PutProfile p t) rows ! i)
        = (if upd_language p = None then language (rows ! i)
           else language (table_after E now (PutProfile p t) rows ! i))
    \<and> (username (rows ! i) \<noteq> None \<longrightarrow> username (table_after E now (PutProfile p t) rows ! i) \<noteq> None)
    \<and> (age (rows ! i) \<noteq> None \<longrightarrow> age (table_after E now (PutProfile p t) rows ! i) \<noteq> None)
    \<and> (location (rows ! i) \<noteq> None \<longrightarrow> location (table_after E now (PutProfile p t) rows ! i) \<noteq> None)
    \<and> (phone (rows ! i) \<noteq> None \<longrightarrow> phone (table_after E now (PutProfile p t) rows ! i) \<noteq> None)
    \<and> (language (rows ! i) \<noteq> None \<longrightarrow> language (table_after E now (PutProfile p t) rows ! i) \<noteq> None)"
  proof -
    fix p t
    show "?thesis p t"
    proof (cases "get_current_user E now t rows")
      case (Inl err)
      then show ?thesis using assms by (simp add: update_profile_table)
    next
      case (Inr cu)
      then show ?thesis
        using assms
        by (simp add: update_profile_table fold_assign_collect split: option.splits)
    qed
  qed
  have other: "(\<forall>p t. req \<noteq> PutProfile p t) \<longrightarrow>
      i < length (table_after E now req rows)
    \<and> username (table_after E now req rows ! i) = username (rows ! i)
    \<and> age (table_after E now req rows ! i) = age (rows ! i)
    \<and> location (table_after E now req rows ! i) = location (rows ! i)
    \<and> phone (table_after E now req rows ! i) = phone (rows ! i)
    \<and> language (table_after E now req rows ! i) = language (rows ! i)"
  proof (cases req)
    case (Register salt user)
    then show ?thesis
      using assms register_table [of E salt user rows] by (auto simp: nth_append)
  next
    case (ResetPassword salt payload')
    then show ?thesis
      using assms reset_password_table [of E salt now payload' rows]
      by (auto simp: update_users_password_nth update_users_password_def)
  qed (use assms in simp_all)
  have len: "i < length (table_after E now req rows)"
    using other put by (cases req) auto
  have keep: "(username (rows ! i) \<noteq> None \<longrightarrow> username (table_after E now req rows ! i) \<noteq> None)
    \<and> (age (rows ! i) \<noteq> None \<longrightarrow> age (table_after E now req rows ! i) \<noteq> None)
    \<and> (location (rows ! i) \<noteq> None \<longrightarrow> location (table_after E now req rows ! i) \<noteq> None)
    \<and> (phone (rows ! i) \<noteq> None \<longrightarrow> phone (table_after E now req rows ! i) \<noteq> None)
    \<and> (language (rows ! i) \<noteq> None \<longrightarrow> language (table_after E now req rows ! i) \<noteq> None)"
  proof (cases "\<forall>p t. req \<noteq> PutProfile p t")
    case True
    then show ?thesis using other by simp
  next
    case False
    then obtain p t where "req = PutProfile p t" by blast
    then show ?thesis using put [of p t] by blast
  qed
  have body: "(upd_username payload = None \<longrightarrow>
          username (table_after E now (PutProfile payload tok) rows ! i) = username (rows ! i))
    \<and> (upd_age payload = None \<longrightarrow>
          age (table_after E now (PutProfile payload tok) rows ! i) = age (rows ! i))
    \<and> (upd_location payload = None \<longrightarrow>
          location (table_after E now (PutProfile payload tok) rows ! i) = location (rows ! i))
    \<and> (upd_phone payload = None \<longrightarrow>
          phone (table_after E now (PutProfile payload tok) rows ! i) = phone (rows ! i))
    \<and> (upd_language payload = None \<longrightarrow>
          language (table_after E now (PutProfile payload tok) rows ! i) = language (rows ! i))"
    using put [of payload tok] by presburger
  from len keep body other show ?thesis by blast
qed

theorem profile_attributes_never_nulled_witness:
  "age (table_after demo_env 10000000 (PutProfile set_nothing (token_for ''a@x.com'' 3600)) [alice, bob] ! 0)
     = Some 30
   \<and> language (table_after demo_env 10000000 (PutProfile set_age_31 (token_for ''a@x.com'' 3600)) [alice, bob] ! 0)
     = Some ''en''
   \<and> location (table_after demo_env 10000000
                 (ResetPassword ''s7'' \<lparr>req_token = token_for ''b@x.com'' 900, req_new_password = ''np''\<rparr>)
                 [alice, bob] ! 1)
     = Some ''NYC''"
proof -
  have i0: "(0::nat) < length [alice, bob]" and i1: "(1::nat) < length [alice, bob]"
    by simp_all
  have none: "upd_age set_nothing = None" "upd_language set_age_31 = None"
    by (simp_all add: set_nothing_def set_age_31_def)
  have a: "age (table_after demo_env 10000000 (PutProfile set_nothing (token_for ''a@x.com'' 3600)) [alice, bob] ! 0)
             = Some 30"
    using profile_attributes_never_nulled
            [OF i0, of demo_env 10000000 "Login [] []" set_nothing "token_for ''a@x.com'' 3600"] none
    by (simp add: alice_def)
  have b: "language (table_after demo_env 10000000 (PutProfile set_age_31 (token_for ''a@x.com'' 3600)) [alice, bob] ! 0)
             = Some ''en''"
    using profile_attributes_never_nulled
            [OF i0, of demo_env 10000000 "Login [] []" set_age_31 "token_for ''a@x.com'' 3600"] none
    by (simp add: alice_def)
  have c: "location (table_after demo_env 10000000
                 (ResetPassword ''s7'' \<lparr>req_token = token_for ''b@x.com'' 900, req_new_password = ''np''\<rparr>)
                 [alice, bob] ! 1)
     = Some ''NYC''"
    using profile_attributes_never_nulled
            [OF i1, of demo_env 10000000
               "ResetPassword ''s7'' \<lparr>req_token = token_for ''b@x.com'' 900, req_new_password = ''np''\<rparr>"
               set_nothing Malformed]
    by (simp add: bob_def)
  from a b c show ?thesis by blast
qed

end
